theory Spec2Isabelle
  imports Main "HOL-Library.Word"
begin

section \<open>JavaScript strings\<close>

text \<open>
  A JavaScript string is a sequence of UTF-16 code units. \<open>js\<close> reads an ASCII
  literal of the source as such a sequence.
\<close>

type_synonym jsstring = "16 word list"

definition js :: "string \<Rightarrow> jsstring" where
  "js s = map (\<lambda>c. of_nat (of_char c)) s"

text \<open>
  \<open>String.prototype.trim\<close> strips the code units of WhiteSpace and LineTerminator
  from both ends.
\<close>

definition is_ws :: "16 word \<Rightarrow> bool" where
  "is_ws c =
     (c = 0x0009 \<or> c = 0x000A \<or> c = 0x000B \<or> c = 0x000C \<or> c = 0x000D \<or> c = 0x0020
      \<or> c = 0x00A0 \<or> c = 0x1680 \<or> (0x2000 \<le> c \<and> c \<le> 0x200A) \<or> c = 0x2028
      \<or> c = 0x2029 \<or> c = 0x202F \<or> c = 0x205F \<or> c = 0x3000 \<or> c = 0xFEFF)"

definition trim :: "jsstring \<Rightarrow> jsstring" where
  "trim s = rev (dropWhile is_ws (rev (dropWhile is_ws s)))"

text \<open>\<open>s.split('')\<close>: one string of length one per UTF-16 code unit.\<close>

definition split :: "jsstring \<Rightarrow> jsstring list" where
  "split s = map (\<lambda>c. [c]) s"

section \<open>Data\<close>

text \<open>A thrown \<open>Error\<close>; only its \<open>message\<close> is read by the source.\<close>

datatype js_error = JsError (message: jsstring)

text \<open>
  An entry of the parsed ABI, with the fields the source reads: \<open>item.type\<close>,
  \<open>item.stateMutability\<close>, \<open>item.inputs\<close>, \<open>item.outputs\<close> and \<open>item.name\<close>.
  The source reads \<open>item.outputs\<close> through \<open>?.\<close>, so it may be absent; it reads
  \<open>item.inputs.length\<close> with no guard, and an entry is taken to carry its list of inputs,
  as the function entries of an ABI do.
\<close>

record abi_param =
  ptype :: jsstring

record abi_item =
  itype :: jsstring
  stateMutability :: jsstring
  inputs :: "abi_param list"
  outputs :: "abi_param list option"
  name :: jsstring

text \<open>The body of the explorer's answer, \<open>{ status, result }\<close>.\<close>

record explorer_data =
  status :: "jsstring option"
  result :: "jsstring option"

text \<open>
  What the program does not own: the environment variables, \<open>window.location\<close>,
  \<open>ethers.isAddress\<close>, the JSON-RPC provider (\<open>getCode\<close>), the explorer
  (\<open>fetch\<close> followed by \<open>response.json()\<close>), \<open>JSON.parse\<close>, the
  \<open>ethers.Contract\<close> constructor and the contract object. Each fallible one returns
  \<open>Inl\<close> of the error it throws.

  The source calls \<open>contract[func.name]()\<close>, a property of the contract object looked up
  by name. The object answers with its own member when it has one of that name
  (\<open>getAddress\<close> is one), and only otherwise with the function of the interface:
  \<open>contract_member\<close> says which names are its own members, and \<open>call\<close> is what
  \<open>await contract[name]()\<close> gives in either case, a string as the source takes it to be.
\<close>

record env =
  alchemy_key :: "jsstring option"
  etherscan_key :: "jsstring option"
  origin :: jsstring
  pathname :: jsstring
  isAddress :: "jsstring \<Rightarrow> bool"
  getCode :: "jsstring \<Rightarrow> jsstring \<Rightarrow> js_error + jsstring"
  fetch_json :: "jsstring \<Rightarrow> js_error + explorer_data"
  JSON_parse :: "jsstring \<Rightarrow> js_error + abi_item list"
  new_Contract :: "jsstring \<Rightarrow> abi_item list \<Rightarrow> jsstring \<Rightarrow> js_error + unit"
  contract_member :: "jsstring \<Rightarrow> bool"
  call :: "jsstring \<Rightarrow> jsstring \<Rightarrow> abi_item list \<Rightarrow> jsstring \<Rightarrow> js_error + jsstring"

text \<open>The signals of the component that \<open>executeRead\<close> writes.\<close>

record ui =
  contractResult :: jsstring
  isLoading :: bool
  error :: jsstring
  isTyping :: bool
  shareUrl :: jsstring

text \<open>
  What a run does, in program order: the writes to the signals
  (\<open>Append_contractResult\<close> is \<open>contractResult.value += c\<close>), the network calls
  and the timer it waits for. \<open>Call\<close> is the call of a function of the contract,
  \<open>Member\<close> the call of a member of the contract object itself, which is no call of
  the contract's function.
\<close>

datatype effect =
    Set_error jsstring
  | Set_isLoading bool
  | Set_contractResult jsstring
  | Append_contractResult jsstring
  | Set_isTyping bool
  | Set_shareUrl jsstring
  | GetCode jsstring jsstring
  | Fetch jsstring
  | Call jsstring jsstring jsstring
  | Member jsstring jsstring jsstring
  | SetTimeout nat

section \<open>The messages of the source\<close>

definition msg_enter :: jsstring where
  "msg_enter = js ''Please enter a contract address''"

definition msg_invalid :: jsstring where
  "msg_invalid = js ''Invalid contract address format, please check and try again''"

definition msg_not_contract :: jsstring where
  "msg_not_contract = js ''This address is not a contract or does not exist''"

definition msg_unverified :: jsstring where
  "msg_unverified = js ''Contract not verified on Etherscan.'' @ [0x000A, 0x000A]
     @ js ''Please verify your contract first.''"

definition msg_no_message :: jsstring where
  "msg_no_message = js ''No message found in this contract.''"

definition msg_failed :: jsstring where
  "msg_failed = js ''Failed to read contract''"

section \<open>readContractOnServer\<close>

text \<open>\<open>x || d\<close> on a string that may be undefined.\<close>

definition or_else :: "jsstring option \<Rightarrow> jsstring \<Rightarrow> jsstring" where
  "or_else x d = (case x of None \<Rightarrow> d | Some s \<Rightarrow> if s = [] then d else s)"

text \<open>Truthiness of a string that may be undefined.\<close>

definition truthy :: "jsstring option \<Rightarrow> bool" where
  "truthy x = (case x of None \<Rightarrow> False | Some s \<Rightarrow> s \<noteq> [])"

text \<open>The predicate of \<open>abi.filter\<close>.\<close>

definition is_string_function :: "abi_item \<Rightarrow> bool" where
  "is_string_function item =
     (itype item = js ''function'' \<and>
      (stateMutability item = js ''view'' \<or> stateMutability item = js ''pure'') \<and>
      length (inputs item) = 0 \<and>
      (case outputs item of None \<Rightarrow> False
       | Some os \<Rightarrow> length os = 1 \<and> ptype (os ! 0) = js ''string''))"

text \<open>
  The server function returns the network calls it made, in order, and either the error it
  threw or the string it returned. \<open>provider_of\<close> is the endpoint of the
  \<open>JsonRpcProvider\<close> (the key falls back to \<open>demo\<close>), \<open>etherscanUrl\<close> the
  address of the explorer query.
\<close>

definition provider_of :: "env \<Rightarrow> jsstring" where
  "provider_of env =
     (let ALCHEMY_KEY = or_else (alchemy_key env) (js ''demo'')
      in js ''https://eth-mainnet.g.alchemy.com/v2/'' @ ALCHEMY_KEY)"

definition etherscanUrl :: "env \<Rightarrow> jsstring \<Rightarrow> jsstring" where
  "etherscanUrl env address =
     (let ETHERSCAN_API_KEY = or_else (etherscan_key env) []
      in js ''https://api.etherscan.io/v2/api?chainid=1&module=contract&action=getabi&address=''
         @ address
         @ (if ETHERSCAN_API_KEY \<noteq> [] then js ''&apikey='' @ ETHERSCAN_API_KEY else []))"

text \<open>
  From \<open>new ethers.Contract\<close> to the end of the function: the contract object, the filter,
  the test for no candidate, and \<open>contract[func.name]()\<close> for the first candidate, which
  calls the contract's function unless the name is a member of the contract object.
\<close>

definition select_and_call ::
  "env \<Rightarrow> jsstring \<Rightarrow> jsstring \<Rightarrow> abi_item list \<Rightarrow> effect list \<times> (js_error + jsstring)" where
  "select_and_call env provider address abi =
     (case new_Contract env address abi provider of
        Inl e \<Rightarrow> ([], Inl e)
      | Inr contract \<Rightarrow>
          (let stringFunctions = filter is_string_function abi
           in if length stringFunctions = 0 then ([], Inl (JsError msg_no_message))
              else
                (let func = stringFunctions ! 0
                 in ([if contract_member env (name func)
                      then Member provider address (name func)
                      else Call provider address (name func)],
                     call env provider address abi (name func)))))"

definition readContractOnServer :: "env \<Rightarrow> jsstring \<Rightarrow> effect list \<times> (js_error + jsstring)" where
  "readContractOnServer env address =
     (let provider = provider_of env
      in case getCode env provider address of
           Inl e \<Rightarrow> ([GetCode provider address], Inl e)
         | Inr code \<Rightarrow>
             if code = js ''0x''
             then ([GetCode provider address], Inl (JsError msg_not_contract))
             else
               (let url = etherscanUrl env address
                in case fetch_json env url of
                     Inl e \<Rightarrow> ([GetCode provider address, Fetch url], Inl e)
                   | Inr data \<Rightarrow>
                       if status data \<noteq> Some (js ''1'') \<or> \<not> truthy (result data)
                       then ([GetCode provider address, Fetch url],
                             Inl (JsError msg_unverified))
                       else
                         (case JSON_parse env (the (result data)) of
                            Inl e \<Rightarrow> ([GetCode provider address, Fetch url], Inl e)
                          | Inr abi \<Rightarrow>
                              (case select_and_call env provider address abi of
                                 (calls, r) \<Rightarrow>
                                   ([GetCode provider address, Fetch url] @ calls, r)))))"

text \<open>
  The steps of the server function up to \<open>JSON.parse\<close> succeed and give the interface
  \<open>abi\<close>.
\<close>

definition parsed_interface :: "env \<Rightarrow> jsstring \<Rightarrow> abi_item list \<Rightarrow> bool" where
  "parsed_interface env address abi =
     (case getCode env (provider_of env) address of
        Inl e \<Rightarrow> False
      | Inr code \<Rightarrow>
          code \<noteq> js ''0x'' \<and>
          (case fetch_json env (etherscanUrl env address) of
             Inl e \<Rightarrow> False
           | Inr data \<Rightarrow>
               status data = Some (js ''1'') \<and> truthy (result data) \<and>
               JSON_parse env (the (result data)) = Inr abi))"

section \<open>executeRead\<close>

text \<open>The typewriter loop \<open>for (let i = 0; i < chars.length; i++)\<close>, from index \<open>i\<close>.\<close>

function typewriter :: "jsstring list \<Rightarrow> nat \<Rightarrow> effect list" where
  "typewriter chars i =
     (if i < length chars
      then SetTimeout 30 # Append_contractResult (chars ! i) # typewriter chars (Suc i)
      else [])"
  by pat_completeness auto
termination
  by (relation "measure (\<lambda>(chars, i). length chars - i)") auto

declare typewriter.simps [simp del]

text \<open>
  The typewriter effect of \<open>executeRead\<close>, from \<open>isTyping.value = true\<close> to
  \<open>isTyping.value = false\<close>; the tick of 30 ms is the constant of the source.
\<close>

definition reveal :: "jsstring \<Rightarrow> effect list" where
  "reveal res =
     [Set_isTyping True]
     @ (let chars = split res in Set_contractResult [] # typewriter chars 0)
     @ [Set_isTyping False]"

definition executeRead :: "env \<Rightarrow> jsstring \<Rightarrow> effect list" where
  "executeRead env address =
     (if trim address = [] then [Set_error msg_enter]
      else if \<not> isAddress env address then [Set_error msg_invalid]
      else
        [Set_isLoading True, Set_error [], Set_contractResult []]
        @ (case readContractOnServer env address of
             (net, Inr res) \<Rightarrow>
               net
               @ [Set_shareUrl (origin env @ pathname env @ js ''?address='' @ address)]
               @ reveal res
           | (net, Inl err) \<Rightarrow>
               net @ [Set_error (if message err \<noteq> [] then message err else msg_failed)])
        @ [Set_isLoading False])"

section \<open>What the effects do to the signals\<close>

fun apply_effect :: "effect \<Rightarrow> ui \<Rightarrow> ui" where
  "apply_effect (Set_error m) u = u\<lparr>error := m\<rparr>"
| "apply_effect (Set_isLoading b) u = u\<lparr>isLoading := b\<rparr>"
| "apply_effect (Set_contractResult s) u = u\<lparr>contractResult := s\<rparr>"
| "apply_effect (Append_contractResult c) u = u\<lparr>contractResult := contractResult u @ c\<rparr>"
| "apply_effect (Set_isTyping b) u = u\<lparr>isTyping := b\<rparr>"
| "apply_effect (Set_shareUrl s) u = u\<lparr>shareUrl := s\<rparr>"
| "apply_effect (GetCode p a) u = u"
| "apply_effect (Fetch url) u = u"
| "apply_effect (Call p a f) u = u"
| "apply_effect (Member p a f) u = u"
| "apply_effect (SetTimeout ms) u = u"

definition run :: "effect list \<Rightarrow> ui \<Rightarrow> ui" where
  "run es u = fold apply_effect es u"

fun is_network :: "effect \<Rightarrow> bool" where
  "is_network (GetCode p a) = True"
| "is_network (Fetch url) = True"
| "is_network (Call p a f) = True"
| "is_network e = False"

section \<open>Observing a run\<close>

text \<open>The increments of the display: the strings appended to contractResult, in order.\<close>

fun increments :: "effect list \<Rightarrow> jsstring list" where
  "increments [] = []"
| "increments (Append_contractResult c # es) = c # increments es"
| "increments (e # es) = increments es"

text \<open>
  The display states a run emits: after each write to contractResult or isTyping, the time
  waited on timers since the previous such write, and the values of contractResult and
  isTyping after it.
\<close>

fun is_display_write :: "effect \<Rightarrow> bool" where
  "is_display_write (Set_contractResult s) = True"
| "is_display_write (Append_contractResult c) = True"
| "is_display_write (Set_isTyping b) = True"
| "is_display_write e = False"

fun emissions :: "effect list \<Rightarrow> nat \<Rightarrow> ui \<Rightarrow> (nat \<times> jsstring \<times> bool) list" where
  "emissions [] waited u = []"
| "emissions (SetTimeout ms # es) waited u = emissions es (waited + ms) u"
| "emissions (e # es) waited u =
     (if is_display_write e
      then (waited, contractResult (apply_effect e u), isTyping (apply_effect e u))
           # emissions es 0 (apply_effect e u)
      else emissions es waited (apply_effect e u))"

text \<open>Every emission but the first comes at least \<open>tick\<close> ms after the one before it.\<close>

definition spaced :: "nat \<Rightarrow> (nat \<times> jsstring \<times> bool) list \<Rightarrow> bool" where
  "spaced tick ems = list_all (\<lambda>em. tick \<le> fst em) (tl ems)"

section \<open>Two runs in flight\<close>

text \<open>
  An \<open>async\<close> function runs until it awaits: the network calls of the server function and
  the timer of the typewriter are where a run is suspended and another may go on.
  \<open>resume\<close> gives what a run does up to its next suspension, and what is left of it.
\<close>

fun suspends :: "effect \<Rightarrow> bool" where
  "suspends (GetCode p a) = True"
| "suspends (Fetch url) = True"
| "suspends (Call p a f) = True"
| "suspends (Member p a f) = True"
| "suspends (SetTimeout ms) = True"
| "suspends e = False"

fun resume :: "effect list \<Rightarrow> effect list \<times> effect list" where
  "resume [] = ([], [])"
| "resume (e # es) =
     (if suspends e then ([e], es)
      else (case resume es of (performed, rest) \<Rightarrow> (e # performed, rest)))"

text \<open>
  Two runs of \<open>executeRead\<close> on the same signals, an earlier one (tagged \<open>False\<close>) and a
  newer one (tagged \<open>True\<close>): the schedule says which of them goes on at each turn; when
  the schedule ends the earlier run finishes, then the newer one.
\<close>

fun interleave :: "bool list \<Rightarrow> effect list \<Rightarrow> effect list \<Rightarrow> (bool \<times> effect) list" where
  "interleave [] earlier newer = map (Pair False) earlier @ map (Pair True) newer"
| "interleave (b # bs) earlier newer =
     (if b
      then (case resume newer of
              (performed, rest) \<Rightarrow> map (Pair True) performed @ interleave bs earlier rest)
      else (case resume earlier of
              (performed, rest) \<Rightarrow> map (Pair False) performed @ interleave bs rest newer))"

text \<open>What the earlier run still does once the newer run has started.\<close>

definition stale :: "(bool \<times> effect) list \<Rightarrow> effect list" where
  "stale tr = map snd (filter (\<lambda>te. \<not> fst te) (dropWhile (\<lambda>te. \<not> fst te) tr))"

section \<open>Sample inputs\<close>

definition addr1 :: jsstring where
  "addr1 = js ''0x01C768D9B8FfCb83DC95dB0EF5c7BbE8564816ca''"

definition addr2 :: jsstring where
  "addr2 = js ''0xDdA7C517b333bb30EB20581929738Cf47A02149b''"

definition setMessage :: abi_item where
  "setMessage = \<lparr>itype = js ''function'', stateMutability = js ''nonpayable'',
     inputs = [\<lparr>ptype = js ''string''\<rparr>], outputs = Some [], name = js ''setMessage''\<rparr>"

definition owner :: abi_item where
  "owner = \<lparr>itype = js ''function'', stateMutability = js ''view'', inputs = [],
     outputs = Some [\<lparr>ptype = js ''address''\<rparr>], name = js ''owner''\<rparr>"

definition getMessage :: abi_item where
  "getMessage = \<lparr>itype = js ''function'', stateMutability = js ''view'', inputs = [],
     outputs = Some [\<lparr>ptype = js ''string''\<rparr>], name = js ''getMessage''\<rparr>"

definition motto :: abi_item where
  "motto = \<lparr>itype = js ''function'', stateMutability = js ''pure'', inputs = [],
     outputs = Some [\<lparr>ptype = js ''string''\<rparr>], name = js ''motto''\<rparr>"

definition sample_abi :: "abi_item list" where
  "sample_abi = [setMessage, owner, getMessage, motto]"

definition getAddress :: abi_item where
  "getAddress = \<lparr>itype = js ''function'', stateMutability = js ''view'', inputs = [],
     outputs = Some [\<lparr>ptype = js ''string''\<rparr>], name = js ''getAddress''\<rparr>"

text \<open>An interface whose first candidate is named as a member of the contract object.\<close>

definition member_abi :: "abi_item list" where
  "member_abi = [setMessage, getAddress, getMessage]"

text \<open>Members of the contract object of ethers.\<close>

definition contract_members :: "jsstring list" where
  "contract_members =
     [js ''target'', js ''interface'', js ''runner'', js ''filters'', js ''fallback'',
      js ''connect'', js ''attach'', js ''getAddress'', js ''getDeployedCode'',
      js ''waitForDeployment'', js ''deploymentTransaction'', js ''getFunction'',
      js ''getEvent'', js ''queryTransaction'', js ''queryFilter'', js ''on'', js ''once'',
      js ''emit'', js ''listenerCount'', js ''listeners'', js ''off'',
      js ''removeAllListeners'', js ''addListener'', js ''removeListener'', js ''then'',
      js ''constructor'', js ''toString'', js ''valueOf'', js ''hasOwnProperty'']"

text \<open>
  An environment where every step succeeds: the contract at \<open>addr1\<close> answers \<open>msg1\<close>, any
  other contract answers \<open>msg2\<close>.
\<close>

definition sample_env :: "jsstring \<Rightarrow> jsstring \<Rightarrow> env" where
  "sample_env msg1 msg2 =
     \<lparr>alchemy_key = None, etherscan_key = None,
      origin = js ''https://example.org'', pathname = js ''/'',
      isAddress = (\<lambda>a. a = addr1 \<or> a = addr2),
      getCode = (\<lambda>p a. Inr (js ''0x6080'')),
      fetch_json = (\<lambda>url. Inr \<lparr>status = Some (js ''1''), result = Some (js ''[abi]'')\<rparr>),
      JSON_parse = (\<lambda>s. Inr sample_abi),
      new_Contract = (\<lambda>a abi p. Inr ()),
      contract_member = (\<lambda>f. f \<in> set contract_members),
      call = (\<lambda>p a abi f. Inr (if a = addr1 then msg1 else msg2))\<rparr>"

text \<open>
  The same, with the interface \<open>member_abi\<close>: the contract's functions answer
  "the message", and \<open>getAddress\<close> of the contract object answers the address.
\<close>

definition member_env :: env where
  "member_env = (sample_env [] [])
     \<lparr>JSON_parse := (\<lambda>s. Inr member_abi),
      call := (\<lambda>p a abi f. if f = js ''getAddress'' then Inr a
                             else Inr (js ''the message''))\<rparr>"

text \<open>The same, with no code at any address.\<close>

definition no_code_env :: env where
  "no_code_env = (sample_env [] [])\<lparr>getCode := (\<lambda>p a. Inr (js ''0x''))\<rparr>"

text \<open>The same, with an explorer that answers status 1 and a payload that is not JSON.\<close>

definition msg_syntax :: jsstring where
  "msg_syntax = js ''Unexpected token < in JSON at position 0''"

definition bad_payload_env :: env where
  "bad_payload_env = (sample_env [] [])
     \<lparr>fetch_json := (\<lambda>url. Inr \<lparr>status = Some (js ''1''), result = Some (js ''<html>'')\<rparr>),
      JSON_parse := (\<lambda>s. Inl (JsError msg_syntax))\<rparr>"

text \<open>The same, with an explorer that answers status 0 and an error string.\<close>

definition unverified_env :: env where
  "unverified_env = (sample_env [] [])
     \<lparr>fetch_json := (\<lambda>url. Inr \<lparr>status = Some (js ''0''),
                         result = Some (js ''Contract source code not verified'')\<rparr>)\<rparr>"

text \<open>
  A schedule of two runs: the earlier run goes on until its typewriter has shown one unit,
  the newer run starts, the earlier run shows its next unit, the newer run reaches its own
  typewriter, the earlier run ends, the newer run ends.
\<close>

definition overlap :: "bool list" where
  "overlap = [False, False, False, False, False, True, False, True, True, True, False,
     True, True]"

definition hello_wave :: jsstring where
  "hello_wave = js ''hello '' @ [0xD83D, 0xDC4B]"

definition ui0 :: ui where
  "ui0 = \<lparr>contractResult = js ''old'', isLoading = False, error = [], isTyping = False,
     shareUrl = js ''https://example.org/?address=old''\<rparr>"

section \<open>Basic facts\<close>

lemma msg_nonempty:
  "msg_enter \<noteq> []" "msg_invalid \<noteq> []" "msg_not_contract \<noteq> []" "msg_unverified \<noteq> []"
  "msg_no_message \<noteq> []" "msg_failed \<noteq> []"
  by (simp_all add: msg_enter_def msg_invalid_def msg_not_contract_def msg_unverified_def
      msg_no_message_def msg_failed_def js_def)

lemma trim_empty_iff: "trim s = [] \<longleftrightarrow> (\<forall>c \<in> set s. is_ws c)"
proof
  assume "trim s = []"
  then have all: "\<forall>x \<in> set (dropWhile is_ws s). is_ws x"
    by (simp add: trim_def)
  have "dropWhile is_ws s = []"
  proof (rule ccontr)
    assume ne: "dropWhile is_ws s \<noteq> []"
    then have "\<not> is_ws (hd (dropWhile is_ws s))" by (rule hd_dropWhile)
    moreover have "hd (dropWhile is_ws s) \<in> set (dropWhile is_ws s)" using ne by simp
    ultimately show False using all by blast
  qed
  then show "\<forall>c \<in> set s. is_ws c" by simp
next
  assume "\<forall>c \<in> set s. is_ws c"
  then show "trim s = []" by (auto simp: trim_def dest: set_dropWhileD)
qed

lemma typewriter_drop:
  "typewriter chars i =
     concat (map (\<lambda>c. [SetTimeout 30, Append_contractResult c]) (drop i chars))"
proof (induction chars i rule: typewriter.induct)
  case (1 chars i)
  show ?case
  proof (cases "i < length chars")
    case True
    then have "drop i chars = chars ! i # drop (Suc i) chars"
      by (simp add: Cons_nth_drop_Suc)
    with True 1 show ?thesis
      by (simp add: typewriter.simps [of chars i])
  next
    case False
    then show ?thesis by (simp add: typewriter.simps [of chars i])
  qed
qed

lemma run_append: "run (es @ fs) u = run fs (run es u)"
  by (simp add: run_def)

lemma run_Cons: "run (e # es) u = run es (apply_effect e u)"
  by (simp add: run_def)

lemma run_Nil: "run [] u = u"
  by (simp add: run_def)

lemma run_typewriter_split:
  "run (typewriter (split r) 0) u = u\<lparr>contractResult := contractResult u @ r\<rparr>"
proof -
  have "run (concat (map (\<lambda>c. [SetTimeout 30, Append_contractResult c]) (split r))) u
          = u\<lparr>contractResult := contractResult u @ r\<rparr>"
    by (induction r arbitrary: u) (simp_all add: split_def run_def)
  then show ?thesis by (simp add: typewriter_drop)
qed

lemma run_reveal: "run (reveal r) u = u\<lparr>contractResult := r, isTyping := False\<rparr>"
  by (simp add: reveal_def run_append run_Cons run_Nil run_typewriter_split)

lemma run_silent: "\<forall>e \<in> set es. \<forall>v. apply_effect e v = v \<Longrightarrow> run es u = u"
  by (induction es) (simp_all add: run_def)

lemma read_silent:
  "\<forall>e \<in> set (fst (readContractOnServer env address)). \<forall>v. apply_effect e v = v"
  by (auto simp: readContractOnServer_def select_and_call_def Let_def
      split: sum.splits prod.splits if_splits)

lemma read_parsed:
  assumes "parsed_interface env address abi"
  shows "readContractOnServer env address =
           ([GetCode (provider_of env) address, Fetch (etherscanUrl env address)]
              @ fst (select_and_call env (provider_of env) address abi),
            snd (select_and_call env (provider_of env) address abi))"
  using assms
  by (auto simp: parsed_interface_def readContractOnServer_def Let_def
      split: sum.splits prod.splits)

lemma executeRead_success:
  assumes "trim address \<noteq> []" and "isAddress env address"
    and "snd (readContractOnServer env address) = Inr r"
  shows "run (executeRead env address) u =
           u\<lparr>isLoading := False, error := [], contractResult := r,
             shareUrl := origin env @ pathname env @ js ''?address='' @ address,
             isTyping := False\<rparr>"
proof -
  obtain net where rd: "readContractOnServer env address = (net, Inr r)"
    using assms(3) by (cases "readContractOnServer env address") simp
  have "\<forall>e \<in> set net. \<forall>v. apply_effect e v = v"
    using read_silent [of env address] rd by simp
  then have net: "\<And>v. run net v = v" by (rule run_silent)
  show ?thesis using assms(1,2)
    by (simp add: executeRead_def rd run_append run_Cons run_Nil net run_reveal)
qed

lemma executeRead_failure:
  assumes "trim address \<noteq> []" and "isAddress env address"
    and "snd (readContractOnServer env address) = Inl err"
  shows "run (executeRead env address) u =
           u\<lparr>isLoading := False,
             error := (if message err \<noteq> [] then message err else msg_failed),
             contractResult := []\<rparr>"
proof -
  obtain net where rd: "readContractOnServer env address = (net, Inl err)"
    using assms(3) by (cases "readContractOnServer env address") simp
  have "\<forall>e \<in> set net. \<forall>v. apply_effect e v = v"
    using read_silent [of env address] rd by simp
  then have net: "\<And>v. run net v = v" by (rule run_silent)
  show ?thesis using assms(1,2)
    by (simp add: executeRead_def rd run_append run_Cons run_Nil net)
qed

lemma executeRead_rejected:
  assumes "trim address = [] \<or> \<not> isAddress env address"
  shows "run (executeRead env address) u =
           u\<lparr>error := (if trim address = [] then msg_enter else msg_invalid)\<rparr>"
  using assms by (auto simp: executeRead_def run_def)

lemma filter_first:
  assumes "\<forall>x \<in> set pre. \<not> P x" and "P d"
  shows "filter P (pre @ d # post) = d # filter P post"
  using assms by (induction pre) auto

lemma is_string_function_iff:
  "is_string_function d \<longleftrightarrow>
     itype d = js ''function''
     \<and> (stateMutability d = js ''view'' \<or> stateMutability d = js ''pure'')
     \<and> inputs d = []
     \<and> (\<exists>p. outputs d = Some [p] \<and> ptype p = js ''string'')"
proof (cases "outputs d")
  case None
  then show ?thesis by (simp add: is_string_function_def)
next
  case (Some os)
  have "length os = 1 \<and> ptype (os ! 0) = js ''string''
          \<longleftrightarrow> (\<exists>p. os = [p] \<and> ptype p = js ''string'')"
    by (cases os) auto
  with Some show ?thesis by (simp add: is_string_function_def)
qed

text \<open>The sample inputs, evaluated.\<close>

lemma addr_valid:
  "trim addr1 \<noteq> []" "trim addr2 \<noteq> []" "addr1 \<noteq> addr2"
  by (simp_all add: trim_empty_iff addr1_def addr2_def js_def is_ws_def)

lemma sample_abi_filter:
  "filter is_string_function sample_abi = [getMessage, motto]"
  by (simp add: sample_abi_def is_string_function_def setMessage_def owner_def getMessage_def
      motto_def js_def)

lemma sample_parsed:
  "parsed_interface (sample_env m1 m2) a sample_abi"
  by (simp add: parsed_interface_def sample_env_def truthy_def js_def)


lemma getMessage_no_member: "js ''getMessage'' \<notin> set contract_members"
  by (simp add: contract_members_def js_def)

lemma sample_fields:
  "new_Contract (sample_env m1 m2) = (\<lambda>a abi p. Inr ())"
  "contract_member (sample_env m1 m2) = (\<lambda>f. f \<in> set contract_members)"
  "call (sample_env m1 m2) = (\<lambda>p a abi f. Inr (if a = addr1 then m1 else m2))"
  "isAddress (sample_env m1 m2) = (\<lambda>a. a = addr1 \<or> a = addr2)"
  "origin (sample_env m1 m2) = js ''https://example.org''"
  "pathname (sample_env m1 m2) = js ''/''"
  by (simp_all add: sample_env_def)

lemma sample_read:
  "readContractOnServer (sample_env m1 m2) a =
     ([GetCode (provider_of (sample_env m1 m2)) a, Fetch (etherscanUrl (sample_env m1 m2) a),
       Call (provider_of (sample_env m1 m2)) a (js ''getMessage'')],
      Inr (if a = addr1 then m1 else m2))"
  by (simp add: read_parsed [OF sample_parsed] select_and_call_def sample_abi_filter
      sample_fields Let_def getMessage_def getMessage_no_member)

lemma sample_executeRead:
  "a = addr1 \<or> a = addr2 \<Longrightarrow> executeRead (sample_env m1 m2) a =
     [Set_isLoading True, Set_error [], Set_contractResult [],
      GetCode (provider_of (sample_env m1 m2)) a, Fetch (etherscanUrl (sample_env m1 m2) a),
      Call (provider_of (sample_env m1 m2)) a (js ''getMessage''),
      Set_shareUrl (js ''https://example.org'' @ js ''/'' @ js ''?address='' @ a)]
     @ reveal (if a = addr1 then m1 else m2) @ [Set_isLoading False]"
  using addr_valid
  by (auto simp add: executeRead_def sample_read sample_fields)

lemma reveal_hello:
  "reveal hello_wave =
     [Set_isTyping True, Set_contractResult [],
      SetTimeout 30, Append_contractResult [0x68], SetTimeout 30, Append_contractResult [0x65],
      SetTimeout 30, Append_contractResult [0x6C], SetTimeout 30, Append_contractResult [0x6C],
      SetTimeout 30, Append_contractResult [0x6F], SetTimeout 30, Append_contractResult [0x20],
      SetTimeout 30, Append_contractResult [0xD83D],
      SetTimeout 30, Append_contractResult [0xDC4B],
      Set_isTyping False]"
  by (simp add: reveal_def typewriter_drop split_def hello_wave_def js_def)

lemma reveal_ok:
  "reveal (js ''ok'') =
     [Set_isTyping True, Set_contractResult [],
      SetTimeout 30, Append_contractResult (js ''o''),
      SetTimeout 30, Append_contractResult (js ''k''),
      Set_isTyping False]"
  by (simp add: reveal_def typewriter_drop split_def js_def)

lemma reveal_abc:
  "reveal (js ''abc'') =
     [Set_isTyping True, Set_contractResult [],
      SetTimeout 30, Append_contractResult (js ''a''),
      SetTimeout 30, Append_contractResult (js ''b''),
      SetTimeout 30, Append_contractResult (js ''c''),
      Set_isTyping False]"
  by (simp add: reveal_def typewriter_drop split_def js_def)

lemma reveal_xy:
  "reveal (js ''xy'') =
     [Set_isTyping True, Set_contractResult [],
      SetTimeout 30, Append_contractResult (js ''x''),
      SetTimeout 30, Append_contractResult (js ''y''),
      Set_isTyping False]"
  by (simp add: reveal_def typewriter_drop split_def js_def)

lemma resume_append: "resume t = (d, r) \<Longrightarrow> d @ r = t"
  by (induction t arbitrary: d r) (auto split: if_splits prod.splits)

lemma upt_shift: "[1..<Suc (Suc n)] = 1 # map Suc [1..<Suc n]"
proof -
  have "[1..<Suc (Suc n)] = 1 # [Suc 1..<Suc (Suc n)]"
    by (rule upt_conv_Cons) simp
  also have "[Suc 1..<Suc (Suc n)] = map Suc [1..<Suc n]"
    by (rule map_Suc_upt [symmetric])
  finally show ?thesis .
qed

lemma emissions_typewriter:
  "emissions (concat (map (\<lambda>c. [SetTimeout 30, Append_contractResult c]) (split r)) @ rest) 0 u
     = map (\<lambda>k. (30, contractResult u @ take k r, isTyping u)) [1..<Suc (length r)]
       @ emissions rest 0 (u\<lparr>contractResult := contractResult u @ r\<rparr>)"
proof (induction r arbitrary: u)
  case Nil
  show ?case by (simp add: split_def)
next
  case (Cons c r)
  have step:
    "emissions (concat (map (\<lambda>c. [SetTimeout 30, Append_contractResult c]) (split (c # r)))
          @ rest) 0 u
        = (30, contractResult u @ [c], isTyping u)
          # emissions (concat (map (\<lambda>c. [SetTimeout 30, Append_contractResult c]) (split r))
              @ rest) 0 (u\<lparr>contractResult := contractResult u @ [c]\<rparr>)"
    by (simp add: split_def)
  have len: "length (c # r) = Suc (length r)" by simp
  show ?case
    unfolding step len upt_shift Cons.IH
    by (simp add: comp_def del: upt_Suc)
qed

section \<open>Address validation\<close>

text \<open>
  C2: for every input that is empty or made of whitespace only, or that the address format
  check \<open>isAddress\<close> refuses, the run is one write of the validation message to the error
  signal (the message asking for an address in the first case, the message of an invalid
  format in the second), and it makes no network call: no getCode, no fetch of the
  explorer, no contract call.
\<close>

theorem invalid_address_no_network:
  assumes "(\<forall>c \<in> set address. is_ws c) \<or> \<not> isAddress env address"
  shows "executeRead env address =
           [Set_error (if (\<forall>c \<in> set address. is_ws c) then msg_enter else msg_invalid)]
       \<and> filter is_network (executeRead env address) = []"
  using assms by (auto simp: executeRead_def trim_empty_iff)

theorem invalid_address_no_network_witness:
  "executeRead (sample_env [] []) (js ''0x12'') = [Set_error msg_invalid]
   \<and> executeRead (sample_env [] []) (js '' '') = [Set_error msg_enter]
   \<and> filter is_network (executeRead (sample_env [] []) (js ''0x12'')) = []"
proof -
  have h1: "(\<forall>c \<in> set (js ''0x12''). is_ws c) \<or> \<not> isAddress (sample_env [] []) (js ''0x12'')"
    by (simp add: sample_fields addr1_def addr2_def js_def)
  have h2: "(\<forall>c \<in> set (js '' ''). is_ws c) \<or> \<not> isAddress (sample_env [] []) (js '' '')"
    by (simp add: js_def is_ws_def)
  have n1: "\<not> (\<forall>c \<in> set (js ''0x12''). is_ws c)"
    by (simp add: js_def is_ws_def)
  have n2: "\<forall>c \<in> set (js '' ''). is_ws c"
    by (simp add: js_def is_ws_def)
  show ?thesis
    using invalid_address_no_network [OF h1] invalid_address_no_network [OF h2] n1 n2
    by simp
qed

text \<open>
  C10: when the address is rejected by validation (empty or whitespace only, or refused by
  \<open>isAddress\<close>), the run writes the error signal only: contractResult, shareUrl, isLoading
  and isTyping keep their prior values, so a message shown by an earlier run stays.
\<close>

theorem rejected_address_frame:
  assumes "(\<forall>c \<in> set address. is_ws c) \<or> \<not> isAddress env address"
  shows "contractResult (run (executeRead env address) u) = contractResult u
       \<and> shareUrl (run (executeRead env address) u) = shareUrl u
       \<and> isLoading (run (executeRead env address) u) = isLoading u
       \<and> isTyping (run (executeRead env address) u) = isTyping u
       \<and> error (run (executeRead env address) u) \<in> {msg_enter, msg_invalid}"
  using assms by (auto simp: executeRead_def run_def trim_empty_iff)

theorem rejected_address_frame_witness:
  "contractResult (run (executeRead (sample_env [] []) (js ''0x12'')) ui0) = js ''old''
   \<and> shareUrl (run (executeRead (sample_env [] []) (js ''0x12'')) ui0)
       = js ''https://example.org/?address=old''
   \<and> isLoading (run (executeRead (sample_env [] []) (js ''0x12'')) ui0) = False
   \<and> isTyping (run (executeRead (sample_env [] []) (js ''0x12'')) ui0) = False"
proof -
  have h: "(\<forall>c \<in> set (js ''0x12''). is_ws c) \<or> \<not> isAddress (sample_env [] []) (js ''0x12'')"
    by (simp add: sample_fields addr1_def addr2_def js_def)
  show ?thesis
    using rejected_address_frame [OF h, of ui0] by (simp add: ui0_def)
qed


section \<open>The Resolver\<close>

text \<open>
  C3: for every address that passes validation and whose bytecode query answers the empty
  sentinel "0x", the server function throws the error saying that the address is not a
  contract, having made the bytecode query only: the run shows that message and goes on to
  no explorer fetch, no selection and no contract call.
\<close>

theorem not_a_contract:
  assumes "trim address \<noteq> []" and "isAddress env address"
    and "getCode env (provider_of env) address = Inr (js ''0x'')"
  shows "readContractOnServer env address =
           ([GetCode (provider_of env) address], Inl (JsError msg_not_contract))
       \<and> executeRead env address =
           [Set_isLoading True, Set_error [], Set_contractResult [],
            GetCode (provider_of env) address,
            Set_error msg_not_contract, Set_isLoading False]"
  using assms by (simp add: readContractOnServer_def executeRead_def Let_def msg_nonempty)

theorem not_a_contract_witness:
  "snd (readContractOnServer no_code_env addr1) = Inl (JsError msg_not_contract)
   \<and> filter is_network (executeRead no_code_env addr1) = [GetCode (provider_of no_code_env) addr1]
   \<and> error (run (executeRead no_code_env addr1) ui0) = msg_not_contract"
proof -
  have h1: "trim addr1 \<noteq> []" by (rule addr_valid(1))
  have h2: "isAddress no_code_env addr1" by (simp add: no_code_env_def sample_env_def)
  have h3: "getCode no_code_env (provider_of no_code_env) addr1 = Inr (js ''0x'')"
    by (simp add: no_code_env_def)
  show ?thesis
    using not_a_contract [OF h1 h2 h3] by (simp add: run_def)
qed

text \<open>
  C4, as the source has it: when the bytecode is not empty and the explorer answers, a
  status other than "1" or a result that is missing or empty makes the server function
  throw the error saying that the contract is not verified, whatever the HTTP status; with
  status "1" and a result string, the string is given to \<open>JSON.parse\<close>: when it parses,
  the resolution goes on with the parsed interface, and when \<open>JSON.parse\<close> throws, the
  server function throws that error of the parser, not the error of an unverified contract.
\<close>

theorem explorer_answer:
  assumes "getCode env (provider_of env) address = Inr code" and "code \<noteq> js ''0x''"
    and "fetch_json env (etherscanUrl env address) = Inr data"
  shows "(status data \<noteq> Some (js ''1'') \<or> \<not> truthy (result data) \<longrightarrow>
            readContractOnServer env address =
              ([GetCode (provider_of env) address, Fetch (etherscanUrl env address)],
               Inl (JsError msg_unverified)))
       \<and> (status data = Some (js ''1'') \<and> truthy (result data) \<longrightarrow>
            (\<forall>abi. JSON_parse env (the (result data)) = Inr abi \<longrightarrow>
               readContractOnServer env address =
                 ([GetCode (provider_of env) address, Fetch (etherscanUrl env address)]
                    @ fst (select_and_call env (provider_of env) address abi),
                  snd (select_and_call env (provider_of env) address abi)))
          \<and> (\<forall>e. JSON_parse env (the (result data)) = Inl e \<longrightarrow>
               readContractOnServer env address =
                 ([GetCode (provider_of env) address, Fetch (etherscanUrl env address)],
                  Inl e)))"
  using assms
  by (auto simp: readContractOnServer_def Let_def split: sum.splits prod.splits)

theorem explorer_answer_witness:
  "readContractOnServer unverified_env addr1 =
     ([GetCode (provider_of unverified_env) addr1, Fetch (etherscanUrl unverified_env addr1)],
      Inl (JsError msg_unverified))
   \<and> snd (readContractOnServer (sample_env (js ''hi'') []) addr1) = Inr (js ''hi'')"
proof -
  let ?d0 = "\<lparr>status = Some (js ''0''),
               result = Some (js ''Contract source code not verified'')\<rparr>"
  let ?d1 = "\<lparr>status = Some (js ''1''), result = Some (js ''[abi]'')\<rparr>"
  have g0: "getCode unverified_env (provider_of unverified_env) addr1 = Inr (js ''0x6080'')"
    by (simp add: unverified_env_def sample_env_def)
  have g1: "getCode (sample_env (js ''hi'') []) (provider_of (sample_env (js ''hi'') [])) addr1
              = Inr (js ''0x6080'')"
    by (simp add: sample_env_def)
  have c: "js ''0x6080'' \<noteq> js ''0x''" by (simp add: js_def)
  have f0: "fetch_json unverified_env (etherscanUrl unverified_env addr1) = Inr ?d0"
    by (simp add: unverified_env_def)
  have f1: "fetch_json (sample_env (js ''hi'') []) (etherscanUrl (sample_env (js ''hi'') []) addr1)
              = Inr ?d1"
    by (simp add: sample_env_def)
  have s0: "status ?d0 \<noteq> Some (js ''1'')" by (simp add: js_def)
  have p1: "JSON_parse (sample_env (js ''hi'') []) (the (result ?d1)) = Inr sample_abi"
    by (simp add: sample_env_def)
  have t1: "truthy (result ?d1)" by (simp add: truthy_def js_def)
  have sel: "snd (select_and_call (sample_env (js ''hi'') [])
               (provider_of (sample_env (js ''hi'') [])) addr1 sample_abi) = Inr (js ''hi'')"
    by (simp add: select_and_call_def sample_abi_filter sample_fields Let_def)
  show ?thesis
    using explorer_answer [OF g0 c f0] explorer_answer [OF g1 c f1] s0 p1 t1 sel
    by simp
qed

text \<open>
  C4 as stated fails where the payload cannot be parsed: with status "1" and a payload that is
  not JSON, the error thrown and shown is the one of \<open>JSON.parse\<close>, not the error of an
  unverified contract.
\<close>

theorem unparseable_payload_error:
  "readContractOnServer bad_payload_env addr1 =
     ([GetCode (provider_of bad_payload_env) addr1, Fetch (etherscanUrl bad_payload_env addr1)],
      Inl (JsError msg_syntax))
   \<and> error (run (executeRead bad_payload_env addr1) ui0) = msg_syntax
   \<and> msg_syntax \<noteq> msg_unverified"
proof -
  have rd: "readContractOnServer bad_payload_env addr1 =
     ([GetCode (provider_of bad_payload_env) addr1, Fetch (etherscanUrl bad_payload_env addr1)],
      Inl (JsError msg_syntax))"
    by (simp add: readContractOnServer_def Let_def bad_payload_env_def sample_env_def truthy_def
        js_def)
  have v: "isAddress bad_payload_env addr1"
    by (simp add: bad_payload_env_def sample_env_def)
  have ne: "msg_syntax \<noteq> []" "msg_syntax \<noteq> msg_unverified"
    by (simp_all add: msg_syntax_def msg_unverified_def js_def)
  have "snd (readContractOnServer bad_payload_env addr1) = Inl (JsError msg_syntax)"
    by (simp add: rd)
  then have "error (run (executeRead bad_payload_env addr1) ui0) = msg_syntax"
    using ne(1) by (simp add: executeRead_failure [OF addr_valid(1) v])
  with rd ne(2) show ?thesis by simp
qed

text \<open>
  What the selection does: when the interface \<open>abi\<close> is parsed and the contract object is
  built, the filter keeps exactly the entries of type function, of mutability view or pure,
  with no input and with one output, of type string; when no entry qualifies the server
  function throws the error saying that no message is found, and calls nothing; otherwise
  \<open>contract[name]()\<close> is evaluated for the name of the first qualifying entry in the order
  of the interface, which calls that function of the contract when the name is no member of
  the contract object, and the member when it is one.
\<close>

lemma candidate_selection:
  assumes "parsed_interface env address abi"
    and "new_Contract env address abi (provider_of env) = Inr ()"
  shows "set (filter is_string_function abi) =
           {d \<in> set abi. itype d = js ''function''
              \<and> (stateMutability d = js ''view'' \<or> stateMutability d = js ''pure'')
              \<and> inputs d = []
              \<and> (\<exists>p. outputs d = Some [p] \<and> ptype p = js ''string'')}
       \<and> ((\<forall>d \<in> set abi. \<not> is_string_function d) \<longrightarrow>
           readContractOnServer env address =
             ([GetCode (provider_of env) address, Fetch (etherscanUrl env address)],
              Inl (JsError msg_no_message)))
       \<and> (\<forall>pre d post. abi = pre @ d # post \<and> (\<forall>x \<in> set pre. \<not> is_string_function x)
             \<and> is_string_function d \<longrightarrow>
           readContractOnServer env address =
             ([GetCode (provider_of env) address, Fetch (etherscanUrl env address),
               if contract_member env (name d)
               then Member (provider_of env) address (name d)
               else Call (provider_of env) address (name d)],
              call env (provider_of env) address abi (name d)))"
proof (intro conjI)
  show "set (filter is_string_function abi) =
           {d \<in> set abi. itype d = js ''function''
              \<and> (stateMutability d = js ''view'' \<or> stateMutability d = js ''pure'')
              \<and> inputs d = []
              \<and> (\<exists>p. outputs d = Some [p] \<and> ptype p = js ''string'')}"
    using is_string_function_iff by auto
  show "(\<forall>d \<in> set abi. \<not> is_string_function d) \<longrightarrow>
           readContractOnServer env address =
             ([GetCode (provider_of env) address, Fetch (etherscanUrl env address)],
              Inl (JsError msg_no_message))"
    using assms(2) by (simp add: read_parsed [OF assms(1)] select_and_call_def filter_empty_conv)
  show "\<forall>pre d post. abi = pre @ d # post \<and> (\<forall>x \<in> set pre. \<not> is_string_function x)
             \<and> is_string_function d \<longrightarrow>
           readContractOnServer env address =
             ([GetCode (provider_of env) address, Fetch (etherscanUrl env address),
               if contract_member env (name d)
               then Member (provider_of env) address (name d)
               else Call (provider_of env) address (name d)],
              call env (provider_of env) address abi (name d))"
    using assms(2)
    by (auto simp: read_parsed [OF assms(1)] select_and_call_def filter_first Let_def)
qed

lemma candidate_selection_sample:
  "readContractOnServer (sample_env (js ''hi'') []) addr1 =
     ([GetCode (provider_of (sample_env (js ''hi'') [])) addr1,
       Fetch (etherscanUrl (sample_env (js ''hi'') []) addr1),
       Call (provider_of (sample_env (js ''hi'') [])) addr1 (js ''getMessage'')],
      Inr (js ''hi''))"
proof -
  let ?env = "sample_env (js ''hi'') []"
  have h1: "parsed_interface ?env addr1 sample_abi" by (rule sample_parsed)
  have h2: "new_Contract ?env addr1 sample_abi (provider_of ?env) = Inr ()"
    by (simp add: sample_fields)
  have split_abi: "sample_abi = [setMessage, owner] @ getMessage # [motto]"
    by (simp add: sample_abi_def)
  have pre: "\<forall>x \<in> set [setMessage, owner]. \<not> is_string_function x"
    by (simp add: is_string_function_def setMessage_def owner_def js_def)
  have d: "is_string_function getMessage"
    by (simp add: is_string_function_def getMessage_def)
  have "readContractOnServer ?env addr1 =
     ([GetCode (provider_of ?env) addr1, Fetch (etherscanUrl ?env addr1),
       if contract_member ?env (name getMessage)
       then Member (provider_of ?env) addr1 (name getMessage)
       else Call (provider_of ?env) addr1 (name getMessage)],
      call ?env (provider_of ?env) addr1 sample_abi (name getMessage))"
    using candidate_selection [OF h1 h2] split_abi pre d by blast
  then show ?thesis by (simp add: sample_fields getMessage_def getMessage_no_member)
qed

text \<open>
  C5: for every parsed interface the selection keeps exactly the entries of type function,
  of mutability view or pure, with no input and one output of type string, fails with the
  error of no message when none qualifies, and otherwise invokes the first qualifying entry.
  The source fails the last part where the name of the first qualifying entry is a member of
  the contract object. With the interface \<open>setMessage(string)\<close>,
  \<open>getAddress() view returns (string)\<close>, \<open>getMessage() view returns (string)\<close>, the
  first candidate is \<open>getAddress\<close>; \<open>contract['getAddress']()\<close> is the member of the
  contract object, so the run calls no function of the contract and shows the address, not
  the message that the contract's function returns.
\<close>

theorem member_name_not_invoked:
  "filter is_string_function member_abi = [getAddress, getMessage]
   \<and> executeRead member_env addr1 =
       [Set_isLoading True, Set_error [], Set_contractResult [],
        GetCode (provider_of member_env) addr1, Fetch (etherscanUrl member_env addr1),
        Member (provider_of member_env) addr1 (js ''getAddress''),
        Set_shareUrl (js ''https://example.org'' @ js ''/'' @ js ''?address='' @ addr1)]
       @ reveal addr1 @ [Set_isLoading False]
   \<and> filter is_network (executeRead member_env addr1) =
       [GetCode (provider_of member_env) addr1, Fetch (etherscanUrl member_env addr1)]
   \<and> contractResult (run (executeRead member_env addr1) ui0) = addr1"
proof -
  have flt: "filter is_string_function member_abi = [getAddress, getMessage]"
    by (simp add: member_abi_def is_string_function_def setMessage_def getAddress_def
        getMessage_def js_def)
  have parsed: "parsed_interface member_env addr1 member_abi"
    by (simp add: parsed_interface_def member_env_def sample_env_def truthy_def js_def)
  have mem: "contract_member member_env (js ''getAddress'')"
    by (simp add: member_env_def sample_env_def contract_members_def)
  have fields: "new_Contract member_env = (\<lambda>a abi p. Inr ())"
    "call member_env = (\<lambda>p a abi f. if f = js ''getAddress'' then Inr a
                                       else Inr (js ''the message''))"
    "isAddress member_env addr1"
    "origin member_env = js ''https://example.org''" "pathname member_env = js ''/''"
    by (simp_all add: member_env_def sample_env_def)
  have rd: "readContractOnServer member_env addr1 =
     ([GetCode (provider_of member_env) addr1, Fetch (etherscanUrl member_env addr1),
       Member (provider_of member_env) addr1 (js ''getAddress'')],
      Inr addr1)"
    using mem
    by (simp add: read_parsed [OF parsed] select_and_call_def flt fields Let_def getAddress_def)
  have ex: "executeRead member_env addr1 =
       [Set_isLoading True, Set_error [], Set_contractResult [],
        GetCode (provider_of member_env) addr1, Fetch (etherscanUrl member_env addr1),
        Member (provider_of member_env) addr1 (js ''getAddress''),
        Set_shareUrl (js ''https://example.org'' @ js ''/'' @ js ''?address='' @ addr1)]
       @ reveal addr1 @ [Set_isLoading False]"
    using addr_valid(1) by (simp add: executeRead_def rd fields)
  have net: "filter is_network (reveal addr1) = []"
    by (simp add: reveal_def typewriter_drop split_def filter_concat comp_def)
  have res: "contractResult (run (executeRead member_env addr1) ui0) = addr1"
    using executeRead_success [OF addr_valid(1) fields(3), of addr1 ui0] rd by simp
  show ?thesis
    using flt ex res net by simp
qed

text \<open>
  C6: when every step succeeds, the string that the call of the selected function returns is
  what the server function returns and, for an address that passes validation, what
  contractResult holds at the end of the run: the same code units, none trimmed, none changed.
\<close>

theorem verbatim_result:
  assumes "parsed_interface env address abi"
    and "new_Contract env address abi (provider_of env) = Inr ()"
    and "filter is_string_function abi = func # others"
    and "call env (provider_of env) address abi (name func) = Inr r"
  shows "snd (readContractOnServer env address) = Inr r
       \<and> (trim address \<noteq> [] \<and> isAddress env address \<longrightarrow>
            contractResult (run (executeRead env address) u) = r)"
proof -
  have r: "snd (readContractOnServer env address) = Inr r"
    using assms(2,3,4) by (simp add: read_parsed [OF assms(1)] select_and_call_def)
  then show ?thesis using executeRead_success [of address env r u] by simp
qed

theorem verbatim_result_witness:
  "snd (readContractOnServer (sample_env (js '' hello '') []) addr1) = Inr (js '' hello '')
   \<and> contractResult (run (executeRead (sample_env (js '' hello '') []) addr1) ui0)
       = js '' hello ''"
proof -
  let ?env = "sample_env (js '' hello '') []"
  have h1: "parsed_interface ?env addr1 sample_abi" by (rule sample_parsed)
  have h2: "new_Contract ?env addr1 sample_abi (provider_of ?env) = Inr ()"
    by (simp add: sample_fields)
  have h3: "filter is_string_function sample_abi = getMessage # [motto]"
    by (rule sample_abi_filter)
  have h4: "call ?env (provider_of ?env) addr1 sample_abi (name getMessage)
              = Inr (js '' hello '')"
    by (simp add: sample_fields)
  have v: "trim addr1 \<noteq> [] \<and> isAddress ?env addr1"
    by (simp add: addr_valid sample_fields)
  show ?thesis
    using verbatim_result [OF h1 h2 h3 h4, of ui0] v by simp
qed

text \<open>
  C9: resolving the same address a second time, in an environment that answers as it did the
  first time, leaves every signal as the first resolution left it; and for an address that
  passes validation the contractResult at the end of a run is the same from any prior values
  of the signals: nothing kept from an earlier run reaches the result.
\<close>

theorem resolve_twice:
  "run (executeRead env address) (run (executeRead env address) u)
     = run (executeRead env address) u
   \<and> (trim address \<noteq> [] \<and> isAddress env address \<longrightarrow>
        contractResult (run (executeRead env address) u)
          = contractResult (run (executeRead env address) u'))"
proof (cases "trim address = [] \<or> \<not> isAddress env address")
  case True
  then show ?thesis by (auto simp add: executeRead_rejected)
next
  case False
  then have v: "trim address \<noteq> []" "isAddress env address" by simp_all
  show ?thesis
  proof (cases "snd (readContractOnServer env address)")
    case (Inl err)
    show ?thesis by (simp add: executeRead_failure [OF v Inl])
  next
    case (Inr r)
    show ?thesis by (simp add: executeRead_success [OF v Inr])
  qed
qed

theorem resolve_twice_witness:
  "run (executeRead (sample_env (js ''hi'') []) addr1)
     (run (executeRead (sample_env (js ''hi'') []) addr1) ui0)
     = run (executeRead (sample_env (js ''hi'') []) addr1) ui0
   \<and> contractResult (run (executeRead (sample_env (js ''hi'') []) addr1) ui0)
       = contractResult (run (executeRead (sample_env (js ''hi'') []) addr1)
           (ui0\<lparr>contractResult := js ''stale'', isTyping := True\<rparr>))"
proof -
  have v: "trim addr1 \<noteq> [] \<and> isAddress (sample_env (js ''hi'') []) addr1"
    by (simp add: addr_valid sample_fields)
  show ?thesis
    using resolve_twice [of "sample_env (js ''hi'') []" addr1 ui0
        "ui0\<lparr>contractResult := js ''stale'', isTyping := True\<rparr>"] v
    by simp
qed

section \<open>The Revealer\<close>

text \<open>
  C1: the Revealer emits one increment per display unit, a sequence of several code points or
  code units such as an emoji outside the Basic Multilingual Plane being one unit, so that
  the message "hello" followed by a space and the waving hand U+1F44B gives 7 increments.
  The source splits the message with \<open>split('')\<close>, that is per UTF-16 code unit: at this
  message it emits 8 increments, the last two being the two surrogate halves D83D and DC4B
  of the emoji.
\<close>

theorem emoji_split_in_two:
  "increments (executeRead (sample_env hello_wave []) addr1) =
     [[0x68], [0x65], [0x6C], [0x6C], [0x6F], [0x20], [0xD83D], [0xDC4B]]
   \<and> length (increments (executeRead (sample_env hello_wave []) addr1)) = 8"
  by (simp add: sample_executeRead reveal_hello)

text \<open>
  C8, as the source has it: for every message, and so for "ok", the Revealer sets isTyping
  and clears contractResult, then shows the prefixes of the message one code unit longer
  each time, each 30 ms after the write before it and with isTyping still set, and clears
  isTyping right after the last unit, with no wait before this last state.
\<close>

theorem reveal_emissions:
  "emissions (reveal r) 0 u =
     (0, contractResult u, True) # (0, [], True)
     # map (\<lambda>k. (30, take k r, True)) [1..<Suc (length r)] @ [(0, r, False)]"
proof -
  have "reveal r = Set_isTyping True # Set_contractResult []
     # concat (map (\<lambda>c. [SetTimeout 30, Append_contractResult c]) (split r))
     @ [Set_isTyping False]"
    by (simp add: reveal_def typewriter_drop)
  then show ?thesis
    by (simp add: emissions_typewriter del: upt_Suc)
qed

theorem reveal_emissions_witness:
  "emissions (reveal (js ''ok'')) 0 (ui0\<lparr>contractResult := []\<rparr>) =
     [(0, [], True), (0, [], True),
      (30, js ''o'', True), (30, js ''ok'', True), (0, js ''ok'', False)]"
  using reveal_emissions [of "js ''ok''" "ui0\<lparr>contractResult := []\<rparr>"]
  by (simp add: js_def ui0_def)

text \<open>
  C8 as stated fails: the three states "o", "ok" (both in progress) and "ok" (done) are
  emitted, but the last one comes 0 ms after the one before it, not 30 ms.
\<close>

theorem reveal_ok_not_spaced:
  "drop 2 (emissions (reveal (js ''ok'')) 0 ui0) =
     [(30, js ''o'', True), (30, js ''ok'', True), (0, js ''ok'', False)]
   \<and> \<not> spaced 30 (drop 2 (emissions (reveal (js ''ok'')) 0 ui0))"
  unfolding reveal_ok by (simp add: spaced_def ui0_def js_def)

section \<open>Two resolutions in flight\<close>

text \<open>
  C7, as the source has it: starting a new resolution while an earlier one is in flight
  cancels nothing. Whatever the interleaving of the two runs at their suspensions, each run
  makes all its network calls, waits for all its timers and writes all its signals, in its
  own order: the earlier run's remaining emissions and its late result are still written to
  the signals that the newer run writes.
\<close>

theorem runs_not_cancelled:
  "map snd (filter (\<lambda>te. \<not> fst te)
       (interleave sched (executeRead env earlier) (executeRead env newer)))
     = executeRead env earlier
   \<and> map snd (filter fst
       (interleave sched (executeRead env earlier) (executeRead env newer)))
     = executeRead env newer"
proof -
  have keeps: "map snd (filter (\<lambda>te. \<not> fst te) (interleave sched t1 t2)) = t1
      \<and> map snd (filter fst (interleave sched t1 t2)) = t2" for t1 t2
  proof (induction sched arbitrary: t1 t2)
    case Nil
    show ?case by (simp add: filter_map comp_def)
  next
    case (Cons b bs)
    show ?case
    proof (cases b)
      case True
      obtain d r where dr: "resume t2 = (d, r)" by (cases "resume t2")
      then have "d @ r = t2" by (rule resume_append)
      with Cons [of t1 r] dr True show ?thesis by (simp add: filter_map comp_def)
    next
      case False
      obtain d r where dr: "resume t1 = (d, r)" by (cases "resume t1")
      then have "d @ r = t1" by (rule resume_append)
      with Cons [of r t2] dr False show ?thesis by (simp add: filter_map comp_def)
    qed
  qed
  show ?thesis by (rule keeps)
qed

text \<open>
  C7 as stated fails: the earlier run reveals "abc", the newer one "xy". Once the newer run
  has started, the earlier run still appends "b" and "c" and clears isTyping and isLoading,
  and the display ends as "cxy".
\<close>

theorem stale_run_not_cancelled:
  "stale (interleave overlap (executeRead (sample_env (js ''abc'') (js ''xy'')) addr1)
                              (executeRead (sample_env (js ''abc'') (js ''xy'')) addr2))
     = [Append_contractResult (js ''b''), SetTimeout 30, Append_contractResult (js ''c''),
        Set_isTyping False, Set_isLoading False]
   \<and> contractResult (run (map snd
        (interleave overlap (executeRead (sample_env (js ''abc'') (js ''xy'')) addr1)
                            (executeRead (sample_env (js ''abc'') (js ''xy'')) addr2))) ui0)
     = js ''cxy''"
  using addr_valid(3)
  by (simp add: sample_executeRead reveal_abc reveal_xy overlap_def stale_def run_def ui0_def)
    (simp add: js_def)

end
